theory Spec2Isabelle
  imports Main "HOL-Library.Sublist"
begin

section \<open>Data model of \<^verbatim>\<open>src/index.ts\<close>\<close>

text \<open>
  Attribute values are typed \<^verbatim>\<open>string | boolean | undefined\<close> by the tag attribute
  interfaces. An attribute set is a JavaScript object; it is modelled by the list
  \<^verbatim>\<open>Object.entries\<close> returns for it, in that order.
\<close>

datatype jsval = JUndefined | JString string | JBoolean bool

type_synonym attrs = "(string \<times> jsval) list"

text \<open>
  Arrays and objects are compared by identity by \<^verbatim>\<open>!==\<close>, so each one carries the
  reference it lives at besides its contents. \<^verbatim>\<open>headmasterData[tagName]\<close> is tested at
  run time with \<^verbatim>\<open>Array.isArray\<close> and \<^verbatim>\<open>typeof\<close>; both shapes are values of one type.
\<close>

type_synonym ref = nat

datatype tagval = TagArray ref "attrs list" | TagObject ref attrs

fun ref_of :: "tagval \<Rightarrow> ref" where
  "ref_of (TagArray r xs) = r"
| "ref_of (TagObject r a) = r"

text \<open>\<^verbatim>\<open>Record<string, string>\<close>: a reference and the object's entries.\<close>

type_synonym strrecord = "ref \<times> (string \<times> string) list"

text \<open>
  An optional property \<^verbatim>\<open>f?: T\<close> of an object is either not a key of the object, or a
  key whose value is \<^verbatim>\<open>undefined\<close> or a \<^verbatim>\<open>T\<close>. Reading the property gives
  \<^verbatim>\<open>undefined\<close> in the first two cases; object spread tells them apart.
\<close>

datatype 'a optprop = NoKey | Key "'a option"

fun rd :: "'a optprop \<Rightarrow> 'a option" where
  "rd NoKey = None"
| "rd (Key v) = v"

record HeadmasterProps =
  title :: "string optprop"
  base :: "tagval optprop"
  meta :: "tagval optprop"
  link :: "tagval optprop"
  style :: "tagval optprop"
  script :: "tagval optprop"
  noscript :: "tagval optprop"
  htmlAttributes :: "strrecord optprop"
  bodyAttributes :: "strrecord optprop"
  children :: "nat optprop"

text \<open>The object literal \<^verbatim>\<open>{}\<close>.\<close>

definition empty_props :: HeadmasterProps where
  "empty_props = \<lparr>title = NoKey, base = NoKey, meta = NoKey, link = NoKey, style = NoKey,
     script = NoKey, noscript = NoKey, htmlAttributes = NoKey, bodyAttributes = NoKey,
     children = NoKey\<rparr>"

definition VALID_TAG_NAMES :: "string list" where
  "VALID_TAG_NAMES = [''base'', ''meta'', ''link'', ''style'', ''script'', ''noscript'']"

text \<open>\<^verbatim>\<open>data[tagName as keyof HeadmasterProps]\<close> for the names of \<^verbatim>\<open>VALID_TAG_NAMES\<close>.\<close>

definition tag_prop :: "string \<Rightarrow> HeadmasterProps \<Rightarrow> tagval option" where
  "tag_prop tagName p =
     (if tagName = ''base'' then rd (base p)
      else if tagName = ''meta'' then rd (meta p)
      else if tagName = ''link'' then rd (link p)
      else if tagName = ''style'' then rd (style p)
      else if tagName = ''script'' then rd (script p)
      else if tagName = ''noscript'' then rd (noscript p)
      else None)"

section \<open>Server mode: the aggregate and its serializer\<close>

text \<open>One property of \<^verbatim>\<open>{ ...a, ...b }\<close>: the key of \<^verbatim>\<open>b\<close> wins when \<^verbatim>\<open>b\<close> has it.\<close>

fun spread_prop :: "'a optprop \<Rightarrow> 'a optprop \<Rightarrow> 'a optprop" where
  "spread_prop a NoKey = a"
| "spread_prop a (Key v) = Key v"

definition spread :: "HeadmasterProps \<Rightarrow> HeadmasterProps \<Rightarrow> HeadmasterProps" where
  "spread a b =
     \<lparr>title = spread_prop (title a) (title b),
      base = spread_prop (base a) (base b),
      meta = spread_prop (meta a) (meta b),
      link = spread_prop (link a) (link b),
      style = spread_prop (style a) (style b),
      script = spread_prop (script a) (script b),
      noscript = spread_prop (noscript a) (noscript b),
      htmlAttributes = spread_prop (htmlAttributes a) (htmlAttributes b),
      bodyAttributes = spread_prop (bodyAttributes a) (bodyAttributes b),
      children = spread_prop (children a) (children b)\<rparr>"

datatype error = Error string

text \<open>Template interpolation \<^verbatim>\<open>${value}\<close> and \<^verbatim>\<open>String(value)\<close> agree on these values.\<close>

fun js_string :: "jsval \<Rightarrow> string" where
  "js_string JUndefined = ''undefined''"
| "js_string (JString s) = s"
| "js_string (JBoolean b) = (if b then ''true'' else ''false'')"

text \<open>\<^verbatim>\<open>Array.prototype.join\<close> on an array of strings.\<close>

fun join :: "string \<Rightarrow> string list \<Rightarrow> string" where
  "join sep [] = []"
| "join sep [x] = x"
| "join sep (x # y # ys) = x @ sep @ join sep (y # ys)"

definition render_attr :: "string \<times> jsval \<Rightarrow> string" where
  \<open>render_attr kv = fst kv @ ''="'' @ js_string (snd kv) @ ''"''\<close>

definition render_element :: "string \<Rightarrow> attrs \<Rightarrow> string" where
  "render_element tagName a =
     ''<'' @ tagName @ '' '' @ join '' '' (map render_attr a) @ '' />''"

text \<open>One round of \<^verbatim>\<open>VALID_TAG_NAMES.forEach\<close> in the serializer, on the string built so far.\<close>

definition render_tag :: "HeadmasterProps \<Rightarrow> string \<Rightarrow> string \<Rightarrow> string" where
  "render_tag dat tagName headmasterString =
     (case tag_prop tagName dat of
        Some (TagArray r xs) \<Rightarrow>
          fold (\<lambda>a s. s @ render_element tagName a) xs headmasterString
      | Some (TagObject r a) \<Rightarrow> headmasterString @ render_element tagName a
      | None \<Rightarrow> headmasterString)"

text \<open>
  \<^verbatim>\<open>renderServerHeadmaster\<close>, on the value \<open>agg\<close> of the module variable
  \<^verbatim>\<open>serverHeadmasterData\<close>, which it returns as it leaves it. A string is truthy when it
  is not empty.
\<close>

definition renderServerHeadmaster ::
  "bool \<Rightarrow> HeadmasterProps \<Rightarrow> (error + string) \<times> HeadmasterProps" where
  "renderServerHeadmaster isServer agg =
     (if \<not> isServer
      then (Inl (Error ''renderServerHeadmaster should only be called on the server side''), agg)
      else
        let s0 = '''';
            s1 = (case rd (title agg) of
                    Some t \<Rightarrow> if t \<noteq> [] then s0 @ ''<title>'' @ t @ ''</title>'' else s0
                  | None \<Rightarrow> s0)
        in (Inr (fold (\<lambda>tagName s. render_tag agg tagName s) VALID_TAG_NAMES s1), agg))"

section \<open>Browser mode: the document\<close>

text \<open>
  The document is the part of the DOM the code touches: the title, the attributes of the
  root and body elements, and the children of the head. Elements are objects shared
  between the head and the array \<^verbatim>\<open>elements\<close>, so they live in a store, \<open>nodes\<close>, and
  are named by their index in it; \<open>head\<close> lists the children of the head in document
  order. The elements of the head are taken to have no element children of their own, so
  that the descendants \<^verbatim>\<open>querySelector\<close> searches are the children, and the parent of an
  element is the head or nothing. Attribute names are taken to be valid and lower-case,
  as \<^verbatim>\<open>setAttribute\<close> stores them, and reading the title gives the string last
  assigned. Every mutation is also written to \<open>trace\<close>.
\<close>

record element =
  el_tag :: string
  el_attrs :: "(string \<times> string) list"
  el_inner :: string

datatype dom_op =
    SetTitle string
  | SetRootAttribute string string
  | SetBodyAttribute string string
  | CreateElement nat string
  | SetAttribute nat string string
  | RemoveAttribute nat string
  | SetInnerHTML nat string
  | AppendChild nat
  | RemoveChild nat

record dom =
  doc_title :: string
  root_attrs :: "(string \<times> string) list"
  body_attrs :: "(string \<times> string) list"
  nodes :: "element list"
  head :: "nat list"
  trace :: "dom_op list"

text \<open>\<^verbatim>\<open>setAttribute\<close> overwrites the attribute where it stands, or adds it last.\<close>

fun attr_set :: "string \<Rightarrow> string \<Rightarrow> (string \<times> string) list \<Rightarrow> (string \<times> string) list" where
  "attr_set k v [] = [(k, v)]"
| "attr_set k v (p # ps) = (if fst p = k then (k, v) # ps else p # attr_set k v ps)"

definition attr_remove :: "string \<Rightarrow> (string \<times> string) list \<Rightarrow> (string \<times> string) list" where
  "attr_remove k ps = filter (\<lambda>p. fst p \<noteq> k) ps"

definition hasAttribute :: "string \<Rightarrow> element \<Rightarrow> bool" where
  "hasAttribute k e = (k \<in> fst ` set (el_attrs e))"

definition set_title :: "string \<Rightarrow> dom \<Rightarrow> dom" where
  "set_title t d = d\<lparr>doc_title := t, trace := trace d @ [SetTitle t]\<rparr>"

definition setRootAttribute :: "string \<Rightarrow> string \<Rightarrow> dom \<Rightarrow> dom" where
  "setRootAttribute k v d =
     d\<lparr>root_attrs := attr_set k v (root_attrs d), trace := trace d @ [SetRootAttribute k v]\<rparr>"

definition setBodyAttribute :: "string \<Rightarrow> string \<Rightarrow> dom \<Rightarrow> dom" where
  "setBodyAttribute k v d =
     d\<lparr>body_attrs := attr_set k v (body_attrs d), trace := trace d @ [SetBodyAttribute k v]\<rparr>"

definition update_node :: "nat \<Rightarrow> (element \<Rightarrow> element) \<Rightarrow> dom \<Rightarrow> dom" where
  "update_node i f d =
     (if i < length (nodes d) then d\<lparr>nodes := (nodes d)[i := f (nodes d ! i)]\<rparr> else d)"

definition setAttribute :: "nat \<Rightarrow> string \<Rightarrow> string \<Rightarrow> dom \<Rightarrow> dom" where
  "setAttribute i k v d =
     (update_node i (\<lambda>e. e\<lparr>el_attrs := attr_set k v (el_attrs e)\<rparr>) d)
       \<lparr>trace := trace d @ [SetAttribute i k v]\<rparr>"

definition removeAttribute :: "nat \<Rightarrow> string \<Rightarrow> dom \<Rightarrow> dom" where
  "removeAttribute i k d =
     (update_node i (\<lambda>e. e\<lparr>el_attrs := attr_remove k (el_attrs e)\<rparr>) d)
       \<lparr>trace := trace d @ [RemoveAttribute i k]\<rparr>"

definition setInnerHTML :: "nat \<Rightarrow> string \<Rightarrow> dom \<Rightarrow> dom" where
  "setInnerHTML i h d =
     (update_node i (\<lambda>e. e\<lparr>el_inner := h\<rparr>) d)\<lparr>trace := trace d @ [SetInnerHTML i h]\<rparr>"

text \<open>\<^verbatim>\<open>document.createElement\<close>: a new element, with no parent.\<close>

definition createElement :: "string \<Rightarrow> dom \<Rightarrow> nat \<times> dom" where
  "createElement tagName d =
     (length (nodes d),
      d\<lparr>nodes := nodes d @ [\<lparr>el_tag = tagName, el_attrs = [], el_inner = []\<rparr>],
        trace := trace d @ [CreateElement (length (nodes d)) tagName]\<rparr>)"

text \<open>The selector \<^verbatim>\<open>tagName[data-headmaster]\<close>.\<close>

definition matches :: "dom \<Rightarrow> string \<Rightarrow> nat \<Rightarrow> bool" where
  "matches d tagName i =
     (i < length (nodes d) \<and> el_tag (nodes d ! i) = tagName
      \<and> hasAttribute ''data-headmaster'' (nodes d ! i))"

definition querySelector :: "dom \<Rightarrow> string \<Rightarrow> nat option" where
  "querySelector d tagName = find (matches d tagName) (head d)"

text \<open>\<^verbatim>\<open>document.head.appendChild\<close> moves a child of the head to the last place.\<close>

definition appendChild :: "nat \<Rightarrow> dom \<Rightarrow> dom" where
  "appendChild i d =
     d\<lparr>head := filter (\<lambda>j. j \<noteq> i) (head d) @ [i], trace := trace d @ [AppendChild i]\<rparr>"

definition parentNode :: "nat \<Rightarrow> dom \<Rightarrow> bool" where
  "parentNode i d = (i \<in> set (head d))"

definition removeChild :: "nat \<Rightarrow> dom \<Rightarrow> dom" where
  "removeChild i d =
     d\<lparr>head := filter (\<lambda>j. j \<noteq> i) (head d), trace := trace d @ [RemoveChild i]\<rparr>"

section \<open>Browser mode: the applier and the reconciler\<close>

definition createOrUpdateElement ::
  "string \<Rightarrow> attrs \<Rightarrow> string option \<Rightarrow> dom \<Rightarrow> nat \<times> dom" where
  "createOrUpdateElement tagName attributes innerHTML d =
     (let (el, d1) = (case querySelector d tagName of
                        Some i \<Rightarrow> (i, d)
                      | None \<Rightarrow> createElement tagName d);
          d2 = setAttribute el ''data-headmaster'' '''' d1;
          d3 = fold (\<lambda>(key, val) s.
                       if val = JUndefined then removeAttribute el key s
                       else setAttribute el key (js_string val) s) attributes d2;
          d4 = (case innerHTML of None \<Rightarrow> d3 | Some h \<Rightarrow> setInnerHTML el h d3)
      in (el, d4))"

text \<open>
  \<^verbatim>\<open>!==\<close> on two property reads: \<^verbatim>\<open>undefined\<close> equals itself only, two objects are equal
  when they are one object, and two strings when they have the same characters.
\<close>

fun ref_neq :: "('a \<Rightarrow> ref) \<Rightarrow> 'a option \<Rightarrow> 'a option \<Rightarrow> bool" where
  "ref_neq r None None = False"
| "ref_neq r (Some a) (Some b) = (r a \<noteq> r b)"
| "ref_neq r a b = True"

text \<open>The three statements both branches of the tag loop run for one attribute set.\<close>

definition add_element :: "string \<Rightarrow> attrs \<Rightarrow> dom \<times> nat list \<Rightarrow> dom \<times> nat list" where
  "add_element tagName attributes st =
     (let (el, d1) = createOrUpdateElement tagName attributes None (fst st);
          d2 = appendChild el d1
      in (d2, snd st @ [el]))"

text \<open>One round of \<^verbatim>\<open>VALID_TAG_NAMES.forEach\<close> in the effect.\<close>

definition sync_tag ::
  "HeadmasterProps \<Rightarrow> HeadmasterProps \<Rightarrow> string \<Rightarrow> dom \<times> nat list \<Rightarrow> dom \<times> nat list" where
  "sync_tag prevHeadmasterData headmasterData tagName st =
     (let currentAttributes = tag_prop tagName headmasterData;
          prevAttributes = tag_prop tagName prevHeadmasterData
      in if ref_neq ref_of currentAttributes prevAttributes
         then (case currentAttributes of
                 Some (TagArray r xs) \<Rightarrow> fold (add_element tagName) xs st
               | Some (TagObject r a) \<Rightarrow> add_element tagName a st
               | None \<Rightarrow> st)
         else st)"

text \<open>\<^verbatim>\<open>Object.entries(x || {})\<close> for an optional record.\<close>

fun entries_or_empty :: "strrecord option \<Rightarrow> (string \<times> string) list" where
  "entries_or_empty None = []"
| "entries_or_empty (Some x) = snd x"

text \<open>\<^verbatim>\<open>headmasterData.title || ''\<close>.\<close>

fun title_or_empty :: "string option \<Rightarrow> string" where
  "title_or_empty None = ''''"
| "title_or_empty (Some t) = (if t \<noteq> [] then t else '''')"

text \<open>
  The browser branch of the effect, from \<^verbatim>\<open>const elements = []\<close> to the last round of the
  tag loop: the document it leaves and the array \<^verbatim>\<open>elements\<close> its teardown closes over.
\<close>

definition useHeadmaster_browser ::
  "HeadmasterProps \<Rightarrow> HeadmasterProps \<Rightarrow> dom \<Rightarrow> dom \<times> nat list" where
  "useHeadmaster_browser prevHeadmasterData headmasterData d =
     (let d1 = (if rd (title headmasterData) \<noteq> rd (title prevHeadmasterData)
                then set_title (title_or_empty (rd (title headmasterData))) d else d);
          d2 = (if ref_neq fst (rd (htmlAttributes headmasterData))
                     (rd (htmlAttributes prevHeadmasterData))
                then fold (\<lambda>(key, val). setRootAttribute key val)
                       (entries_or_empty (rd (htmlAttributes headmasterData))) d1
                else d1);
          d3 = (if ref_neq fst (rd (bodyAttributes headmasterData))
                     (rd (bodyAttributes prevHeadmasterData))
                then fold (\<lambda>(key, val). setBodyAttribute key val)
                       (entries_or_empty (rd (bodyAttributes headmasterData))) d2
                else d2)
      in fold (sync_tag prevHeadmasterData headmasterData) VALID_TAG_NAMES (d3, []))"

text \<open>The teardown the effect returns, on the array it closed over.\<close>

definition useHeadmaster_cleanup :: "nat list \<Rightarrow> dom \<Rightarrow> dom" where
  "useHeadmaster_cleanup elements d =
     fold (\<lambda>el s. if parentNode el s then removeChild el s else s) elements d"

text \<open>
  The state the effect runs on: the module variable, the hook's ref and the document.
  The effect returns its teardown, or nothing on the server.
\<close>

record world =
  serverHeadmasterData :: HeadmasterProps
  prevHeadmasterDataRef :: HeadmasterProps
  document :: dom

definition useHeadmaster_effect ::
  "bool \<Rightarrow> HeadmasterProps \<Rightarrow> world \<Rightarrow> world \<times> nat list option" where
  "useHeadmaster_effect isServer headmasterData w =
     (if isServer
      then (w\<lparr>serverHeadmasterData := spread (serverHeadmasterData w) headmasterData\<rparr>, None)
      else
        let (d, elements) =
              useHeadmaster_browser (prevHeadmasterDataRef w) headmasterData (document w)
        in (w\<lparr>document := d, prevHeadmasterDataRef := headmasterData\<rparr>, Some elements))"

section \<open>The serializer as the specification words it\<close>

text \<open>
  Written from the specification, not from the code: a title block when the title is
  not empty, then the elements of base, meta, link, style, script and noscript, in that
  order, one element for each entry of a sequence in the order of the sequence, one
  element for a single attribute set. An element is written as in the specification's
  example.
\<close>

definition spec_title :: "string option \<Rightarrow> string" where
  "spec_title t =
     (case t of
        None \<Rightarrow> []
      | Some s \<Rightarrow> if s = [] then [] else ''<title>'' @ s @ ''</title>'')"

definition spec_kind :: "string \<Rightarrow> tagval option \<Rightarrow> string" where
  "spec_kind kind v =
     (case v of
        None \<Rightarrow> []
      | Some (TagArray r xs) \<Rightarrow> concat (map (render_element kind) xs)
      | Some (TagObject r a) \<Rightarrow> render_element kind a)"

definition spec_render :: "HeadmasterProps \<Rightarrow> string" where
  "spec_render agg =
     spec_title (rd (title agg))
     @ spec_kind ''base'' (rd (base agg))
     @ spec_kind ''meta'' (rd (meta agg))
     @ spec_kind ''link'' (rd (link agg))
     @ spec_kind ''style'' (rd (style agg))
     @ spec_kind ''script'' (rd (script agg))
     @ spec_kind ''noscript'' (rd (noscript agg))"

text \<open>A document with nothing in it, and a state in which nothing has been declared.\<close>

definition empty_dom :: dom where
  "empty_dom = \<lparr>doc_title = [], root_attrs = [], body_attrs = [], nodes = [], head = [],
     trace = []\<rparr>"

definition empty_world :: world where
  "empty_world = \<lparr>serverHeadmasterData = empty_props, prevHeadmasterDataRef = empty_props,
     document = empty_dom\<rparr>"

section \<open>Auxiliary notions for the proofs\<close>

text \<open>
  The operations of the trace that write the title or an attribute of the root or body
  element, and the part of the document the tag loop never touches.
\<close>

fun is_doc_op :: "dom_op \<Rightarrow> bool" where
  "is_doc_op (SetTitle t) = True"
| "is_doc_op (SetRootAttribute k v) = True"
| "is_doc_op (SetBodyAttribute k v) = True"
| "is_doc_op op = False"

definition outer ::
  "dom \<Rightarrow> string \<times> (string \<times> string) list \<times> (string \<times> string) list \<times> dom_op list" where
  "outer d = (doc_title d, root_attrs d, body_attrs d, filter is_doc_op (trace d))"


text \<open>The statements of the browser branch that come before the tag loop.\<close>

definition doc_part :: "HeadmasterProps \<Rightarrow> HeadmasterProps \<Rightarrow> dom \<Rightarrow> dom" where
  "doc_part prevHeadmasterData headmasterData d =
     (let d1 = (if rd (title headmasterData) \<noteq> rd (title prevHeadmasterData)
                then set_title (title_or_empty (rd (title headmasterData))) d else d);
          d2 = (if ref_neq fst (rd (htmlAttributes headmasterData))
                     (rd (htmlAttributes prevHeadmasterData))
                then fold (\<lambda>(key, val). setRootAttribute key val)
                       (entries_or_empty (rd (htmlAttributes headmasterData))) d1
                else d1)
      in (if ref_neq fst (rd (bodyAttributes headmasterData))
                     (rd (bodyAttributes prevHeadmasterData))
                then fold (\<lambda>(key, val). setBodyAttribute key val)
                       (entries_or_empty (rd (bodyAttributes headmasterData))) d2
                else d2))"

text \<open>
  What the attribute loop of \<^verbatim>\<open>createOrUpdateElement\<close> does to the attribute list of the
  element, and one round of that loop on the document.
\<close>

definition sync_attrs :: "attrs \<Rightarrow> (string \<times> string) list \<Rightarrow> (string \<times> string) list" where
  "sync_attrs a al =
     fold (\<lambda>(key, val) ps. if val = JUndefined then attr_remove key ps
                              else attr_set key (js_string val) ps) a al"

abbreviation (input) attr_step :: "nat \<Rightarrow> string \<times> jsval \<Rightarrow> dom \<Rightarrow> dom" where
  "attr_step el \<equiv> (\<lambda>(key, val) s. if val = JUndefined then removeAttribute el key s
                   else setAttribute el key (js_string val) s)"

text \<open>The element \<open>n\<close> is a child of the head and the only one the selector matches.\<close>

definition only_match :: "dom \<Rightarrow> string \<Rightarrow> nat \<Rightarrow> bool" where
  "only_match d t n =
     (n \<in> set (head d) \<and> matches d t n \<and> (\<forall>j\<in>set (head d). matches d t j \<longrightarrow> j = n))"

text \<open>
  Two descriptors with the same contents in different arrays and objects, and a document
  whose head holds an unmarked meta element and two marked ones.
\<close>

definition example_A :: HeadmasterProps where
  "example_A = empty_props\<lparr>title := Key (Some ''Home''),
     meta := Key (Some (TagArray 1 [[(''name'', JString ''d'')], [(''name'', JString ''e'')]])),
     htmlAttributes := Key (Some (3, [(''lang'', ''en'')])),
     bodyAttributes := Key (Some (5, [(''class'', ''dark'')]))\<rparr>"

definition example_B :: HeadmasterProps where
  "example_B = empty_props\<lparr>title := Key (Some ''Home''),
     meta := Key (Some (TagArray 2 [[(''name'', JString ''d'')], [(''name'', JString ''e'')]])),
     htmlAttributes := Key (Some (4, [(''lang'', ''en'')])),
     bodyAttributes := Key (Some (6, [(''class'', ''dark'')]))\<rparr>"

definition example_dom :: dom where
  "example_dom = \<lparr>doc_title = ''Old'', root_attrs = [(''lang'', ''fr''), (''dir'', ''ltr'')],
     body_attrs = [(''id'', ''b'')],
     nodes = [\<lparr>el_tag = ''meta'', el_attrs = [(''charset'', ''utf-8'')], el_inner = []\<rparr>,
              \<lparr>el_tag = ''meta'', el_attrs = [(''data-headmaster'', ''''), (''name'', ''x'')],
                el_inner = []\<rparr>,
              \<lparr>el_tag = ''meta'', el_attrs = [(''data-headmaster'', ''''), (''name'', ''y'')],
                el_inner = []\<rparr>],
     head = [0, 1, 2], trace = []\<rparr>"


section \<open>Server mode: properties\<close>

lemma fold_append_concat:
  "fold (\<lambda>a s. s @ g a) xs acc = acc @ concat (map g xs)"
  by (induction xs arbitrary: acc) simp_all

lemma render_tag_spec_kind:
  "render_tag agg t acc = acc @ spec_kind t (tag_prop t agg)"
  by (simp add: render_tag_def spec_kind_def fold_append_concat
      split: option.splits tagval.splits)

lemma render_eq_spec:
  "renderServerHeadmaster True agg = (Inr (spec_render agg), agg)"
  by (simp add: renderServerHeadmaster_def VALID_TAG_NAMES_def render_tag_spec_kind
      spec_render_def spec_title_def tag_prop_def Let_def split: option.splits)










text \<open>
  C1. On the server, the effect overwrites every top-level property of the aggregate that
  is a key of the submitted descriptor with the submitted value. After submitting \<open>A\<close>
  and then \<open>B\<close>, both with a \<open>meta\<close> key, the aggregate's \<open>meta\<close> is the \<open>meta\<close> of \<open>B\<close>:
  the array of \<open>A\<close> is replaced, not extended.
\<close>

theorem server_merge_shallow_overwrite:
  "(let agg = serverHeadmasterData (fst (useHeadmaster_effect True new w)) in
      (title new \<noteq> NoKey \<longrightarrow> title agg = title new)
    \<and> (base new \<noteq> NoKey \<longrightarrow> base agg = base new)
    \<and> (meta new \<noteq> NoKey \<longrightarrow> meta agg = meta new)
    \<and> (link new \<noteq> NoKey \<longrightarrow> link agg = link new)
    \<and> (style new \<noteq> NoKey \<longrightarrow> style agg = style new)
    \<and> (script new \<noteq> NoKey \<longrightarrow> script agg = script new)
    \<and> (noscript new \<noteq> NoKey \<longrightarrow> noscript agg = noscript new)
    \<and> (htmlAttributes new \<noteq> NoKey \<longrightarrow> htmlAttributes agg = htmlAttributes new)
    \<and> (bodyAttributes new \<noteq> NoKey \<longrightarrow> bodyAttributes agg = bodyAttributes new)
    \<and> (children new \<noteq> NoKey \<longrightarrow> children agg = children new))
   \<and> (meta A \<noteq> NoKey \<and> meta B \<noteq> NoKey \<longrightarrow>
        meta (serverHeadmasterData
               (fst (useHeadmaster_effect True B (fst (useHeadmaster_effect True A w)))))
        = meta B)"
proof -
  have ov: "b \<noteq> NoKey \<Longrightarrow> spread_prop a b = b" for a b :: "'a optprop"
    by (cases b) simp_all
  show ?thesis
    by (simp add: useHeadmaster_effect_def spread_def Let_def ov)
qed

theorem server_merge_shallow_overwrite_witness:
  "meta (empty_props\<lparr>meta := Key (Some (TagArray 1
            [[(''name'', JString ''a'')], [(''name'', JString ''b'')]]))\<rparr>) \<noteq> NoKey
   \<and> meta (empty_props\<lparr>meta := Key (Some (TagArray 2 [[(''name'', JString ''c'')]]))\<rparr>)
       \<noteq> NoKey
   \<and> meta (serverHeadmasterData
        (fst (useHeadmaster_effect True
               (empty_props\<lparr>meta := Key (Some (TagArray 2 [[(''name'', JString ''c'')]]))\<rparr>)
               (fst (useHeadmaster_effect True
                      (empty_props\<lparr>meta := Key (Some (TagArray 1
                         [[(''name'', JString ''a'')], [(''name'', JString ''b'')]]))\<rparr>)
                      empty_world)))))
     = Key (Some (TagArray 2 [[(''name'', JString ''c'')]]))"
  using server_merge_shallow_overwrite
    [of "empty_props\<lparr>meta := Key (Some (TagArray 2 [[(''name'', JString ''c'')]]))\<rparr>"
        empty_world
        "empty_props\<lparr>meta := Key (Some (TagArray 1
           [[(''name'', JString ''a'')], [(''name'', JString ''b'')]]))\<rparr>"
        "empty_props\<lparr>meta := Key (Some (TagArray 2 [[(''name'', JString ''c'')]]))\<rparr>"]
  by simp

text \<open>
  C2. In a browser context the serializer fails with the error of the source and leaves
  the aggregate as it was. It fails in no other case: on the server it returns a string.
\<close>

theorem serializer_fails_in_browser_only:
  "renderServerHeadmaster False agg =
     (Inl (Error ''renderServerHeadmaster should only be called on the server side''), agg)
   \<and> snd (renderServerHeadmaster isServer agg) = agg
   \<and> isl (fst (renderServerHeadmaster isServer agg)) = (\<not> isServer)"
  by (simp add: renderServerHeadmaster_def Let_def)

text \<open>
  C3. On the server the serializer returns the string the specification describes: the
  title block when the title is not empty, then the elements of the tag kinds in the
  order base, meta, link, style, script, noscript, each sequence in its own order. It
  leaves the aggregate as it was. For the aggregate with title \<open>T\<close> and one meta entry
  with name \<open>d\<close> and content \<open>c\<close> the string is the one the specification gives.
\<close>

theorem serializer_output:
  \<open>renderServerHeadmaster True agg = (Inr (spec_render agg), agg)
   \<and> renderServerHeadmaster True
       (empty_props\<lparr>title := Key (Some ''T''),
          meta := Key (Some (TagArray r
            [[(''name'', JString ''d''), (''content'', JString ''c'')]]))\<rparr>)
     = (Inr ''<title>T</title><meta name="d" content="c" />'',
        empty_props\<lparr>title := Key (Some ''T''),
          meta := Key (Some (TagArray r
            [[(''name'', JString ''d''), (''content'', JString ''c'')]]))\<rparr>)\<close>
  by (simp add: render_eq_spec spec_render_def spec_title_def spec_kind_def empty_props_def
       render_element_def render_attr_def)

section \<open>Browser mode: lemmas\<close>

lemmas dom_op_defs = setAttribute_def removeAttribute_def setInnerHTML_def update_node_def
  appendChild_def removeChild_def createElement_def

lemma outer_ops [simp]:
  "outer (setAttribute i k v d) = outer d"
  "outer (removeAttribute i k d) = outer d"
  "outer (setInnerHTML i h d) = outer d"
  "outer (appendChild i d) = outer d"
  "outer (removeChild i d) = outer d"
  "outer (snd (createElement t d)) = outer d"
  by (simp_all add: outer_def dom_op_defs)

lemma outer_fold_attrs [simp]:
  "outer (fold (\<lambda>(key, val) s. if val = JUndefined then removeAttribute el key s
                   else setAttribute el key (js_string val) s) a d) = outer d"
  by (induction a arbitrary: d) (simp_all split: prod.splits)

lemma outer_createOrUpdateElement [simp]:
  "outer (snd (createOrUpdateElement t a h d)) = outer d"
  by (cases "querySelector d t"; cases h)
    (simp_all add: createOrUpdateElement_def createElement_def Let_def,
     simp_all add: outer_def)

lemma outer_add_element [simp]: "outer (fst (add_element t a st)) = outer (fst st)"
  by (simp add: add_element_def Let_def split: prod.splits)
    (metis outer_createOrUpdateElement snd_conv)

lemma outer_fold_add_element [simp]:
  "outer (fst (fold (add_element t) xs st)) = outer (fst st)"
  by (induction xs arbitrary: st) simp_all

lemma outer_sync_tag [simp]: "outer (fst (sync_tag p n t st)) = outer (fst st)"
  by (simp add: sync_tag_def Let_def split: option.splits tagval.splits)

lemma outer_fold_sync_tag [simp]:
  "outer (fst (fold (sync_tag p n) ts st)) = outer (fst st)"
  by (induction ts arbitrary: st) simp_all

lemma outer_cleanup [simp]: "outer (useHeadmaster_cleanup els d) = outer d"
  unfolding useHeadmaster_cleanup_def
  by (induction els arbitrary: d) simp_all

lemma browser_phases:
  "useHeadmaster_browser p n d = fold (sync_tag p n) VALID_TAG_NAMES (doc_part p n d, [])"
  by (simp add: useHeadmaster_browser_def doc_part_def Let_def)





lemma keys_attr_set: "fst ` set (attr_set k v al) = insert k (fst ` set al)"
  by (induction al) auto











lemma nodes_cleanup: "nodes (useHeadmaster_cleanup els d) = nodes d"
  unfolding useHeadmaster_cleanup_def
  by (induction els arbitrary: d) (simp_all add: removeChild_def)

lemma head_cleanup:
  "head (useHeadmaster_cleanup els d) = filter (\<lambda>i. i \<notin> set els) (head d)"
  unfolding useHeadmaster_cleanup_def
proof (induction els arbitrary: d)
  case Nil
  show ?case by simp
next
  case (Cons el els)
  have keep: "filter (\<lambda>j. j \<noteq> el) xs = xs" if "el \<notin> set xs" for xs :: "nat list"
    using that by (induction xs) auto
  have step: "head (if parentNode el d then removeChild el d else d)
                = filter (\<lambda>j. j \<noteq> el) (head d)"
    by (simp add: parentNode_def removeChild_def keep)
  have "head (fold (\<lambda>el s. if parentNode el s then removeChild el s else s) (el # els) d)
          = filter (\<lambda>i. i \<notin> set els) (filter (\<lambda>j. j \<noteq> el) (head d))"
    by (simp add: Cons.IH step)
  also have "\<dots> = filter (\<lambda>i. i \<notin> set (el # els)) (head d)"
    by (simp add: conj_commute)
  finally show ?case .
qed

lemma head_fold_attrs [simp]: "head (fold (attr_step el) a d) = head d"
  by (induction a arbitrary: d)
    (simp_all add: setAttribute_def removeAttribute_def update_node_def split: prod.splits)

lemma length_nodes_fold_attrs [simp]:
  "length (nodes (fold (attr_step el) a d)) = length (nodes d)"
  by (induction a arbitrary: d)
    (simp_all add: setAttribute_def removeAttribute_def update_node_def split: prod.splits)

lemma nodes_setAttribute:
  "el < length (nodes d) \<Longrightarrow> nodes (setAttribute el k v d) =
     (nodes d)[el := (nodes d ! el)\<lparr>el_attrs := attr_set k v (el_attrs (nodes d ! el))\<rparr>]"
  by (simp add: setAttribute_def update_node_def)

lemma nodes_removeAttribute:
  "el < length (nodes d) \<Longrightarrow> nodes (removeAttribute el k d) =
     (nodes d)[el := (nodes d ! el)\<lparr>el_attrs := attr_remove k (el_attrs (nodes d ! el))\<rparr>]"
  by (simp add: removeAttribute_def update_node_def)

lemma nodes_fold_attrs:
  "el < length (nodes d) \<Longrightarrow>
   nodes (fold (attr_step el) a d) =
     (nodes d)[el := (nodes d ! el)\<lparr>el_attrs := sync_attrs a (el_attrs (nodes d ! el))\<rparr>]"
proof (induction a arbitrary: d)
  case Nil
  then show ?case by (simp add: sync_attrs_def)
next
  case (Cons kv a)
  obtain k v where kv: "kv = (k, v)" by (cases kv)
  show ?case
  proof (cases "v = JUndefined")
    case True
    have len: "el < length (nodes (removeAttribute el k d))"
      using Cons.prems by (simp add: nodes_removeAttribute)
    show ?thesis
      using Cons.IH [OF len] Cons.prems
      by (simp add: kv True nodes_removeAttribute sync_attrs_def)
  next
    case False
    have len: "el < length (nodes (setAttribute el k (js_string v) d))"
      using Cons.prems by (simp add: nodes_setAttribute)
    show ?thesis
      using Cons.IH [OF len] Cons.prems
      by (simp add: kv False nodes_setAttribute sync_attrs_def)
  qed
qed

lemma head_coue [simp]: "head (snd (createOrUpdateElement t a h d)) = head d"
  by (cases "querySelector d t"; cases h)
    (simp_all add: createOrUpdateElement_def createElement_def Let_def setAttribute_def
      setInnerHTML_def update_node_def)

lemma querySelector_Some_valid: "querySelector d t = Some i \<Longrightarrow> i < length (nodes d)"
  by (auto simp: querySelector_def matches_def find_Some_iff)

lemma coue_found:
  assumes "querySelector d t = Some i"
  shows "fst (createOrUpdateElement t a None d) = i"
    and "nodes (snd (createOrUpdateElement t a None d)) =
          (nodes d)[i := (nodes d ! i)\<lparr>el_attrs :=
             sync_attrs a (attr_set ''data-headmaster'' '''' (el_attrs (nodes d ! i)))\<rparr>]"
proof -
  have v: "i < length (nodes d)" using assms by (rule querySelector_Some_valid)
  show "fst (createOrUpdateElement t a None d) = i"
    using assms by (simp add: createOrUpdateElement_def Let_def)
  have v2: "i < length (nodes (setAttribute i ''data-headmaster'' '''' d))"
    using v by (simp add: setAttribute_def update_node_def)
  show "nodes (snd (createOrUpdateElement t a None d)) =
          (nodes d)[i := (nodes d ! i)\<lparr>el_attrs :=
             sync_attrs a (attr_set ''data-headmaster'' '''' (el_attrs (nodes d ! i)))\<rparr>]"
    using assms v
    by (simp add: createOrUpdateElement_def Let_def nodes_fold_attrs [OF v2])
      (simp add: setAttribute_def update_node_def)
qed

lemma coue_created:
  assumes "querySelector d t = None"
  shows "fst (createOrUpdateElement t a None d) = length (nodes d)"
    and "nodes (snd (createOrUpdateElement t a None d)) =
          nodes d @ [\<lparr>el_tag = t, el_attrs = sync_attrs a [(''data-headmaster'', '''')],
                      el_inner = []\<rparr>]"
proof -
  show "fst (createOrUpdateElement t a None d) = length (nodes d)"
    using assms by (simp add: createOrUpdateElement_def createElement_def Let_def)
  let ?d1 = "snd (createElement t d)"
  let ?d2 = "setAttribute (length (nodes d)) ''data-headmaster'' '''' ?d1"
  have v2: "length (nodes d) < length (nodes ?d2)"
    by (simp add: setAttribute_def update_node_def createElement_def)
  have n2: "nodes ?d2 = nodes d @ [\<lparr>el_tag = t, el_attrs = [(''data-headmaster'', '''')],
                      el_inner = []\<rparr>]"
    by (simp add: setAttribute_def update_node_def createElement_def)
  have "nodes (snd (createOrUpdateElement t a None d)) =
          nodes (fold (attr_step (length (nodes d))) a ?d2)"
    using assms by (simp add: createOrUpdateElement_def createElement_def Let_def)
  also have "\<dots> = nodes d @ [\<lparr>el_tag = t, el_attrs = sync_attrs a [(''data-headmaster'', '''')],
                      el_inner = []\<rparr>]"
    by (simp add: nodes_fold_attrs [OF v2] n2)
  finally show "nodes (snd (createOrUpdateElement t a None d)) =
          nodes d @ [\<lparr>el_tag = t, el_attrs = sync_attrs a [(''data-headmaster'', '''')],
                      el_inner = []\<rparr>]" .
qed

lemma snd_add_element:
  "snd (add_element t a st) = snd st @ [fst (createOrUpdateElement t a None (fst st))]"
  by (simp add: add_element_def Let_def split: prod.splits)

lemma head_add_element:
  "head (fst (add_element t a st)) =
     filter (\<lambda>j. j \<noteq> fst (createOrUpdateElement t a None (fst st))) (head (fst st))
     @ [fst (createOrUpdateElement t a None (fst st))]"
proof -
  obtain el d1 where c: "createOrUpdateElement t a None (fst st) = (el, d1)"
    by (cases "createOrUpdateElement t a None (fst st)")
  have "head d1 = head (fst st)" using head_coue [of t a None "fst st"] by (simp add: c)
  then show ?thesis by (simp add: add_element_def Let_def c appendChild_def)
qed

lemma nodes_add_element:
  "nodes (fst (add_element t a st)) = nodes (snd (createOrUpdateElement t a None (fst st)))"
  by (simp add: add_element_def Let_def appendChild_def split: prod.splits)


lemma attached_add_element:
  assumes "set (snd st) \<subseteq> set (head (fst st))"
  shows "set (snd (add_element t a st)) \<subseteq> set (head (fst (add_element t a st)))"
  using assms by (auto simp: snd_add_element head_add_element)

lemma attached_fold_add_element:
  "set (snd st) \<subseteq> set (head (fst st)) \<Longrightarrow>
   set (snd (fold (add_element t) xs st)) \<subseteq> set (head (fst (fold (add_element t) xs st)))"
  by (induction xs arbitrary: st) (simp_all add: attached_add_element)

lemma attached_sync_tag:
  "set (snd st) \<subseteq> set (head (fst st)) \<Longrightarrow>
   set (snd (sync_tag p n t st)) \<subseteq> set (head (fst (sync_tag p n t st)))"
  by (simp add: sync_tag_def Let_def attached_add_element attached_fold_add_element
      split: option.splits tagval.splits)

lemma attached_fold_sync_tag:
  "set (snd st) \<subseteq> set (head (fst st)) \<Longrightarrow>
   set (snd (fold (sync_tag p n) ts st)) \<subseteq> set (head (fst (fold (sync_tag p n) ts st)))"
  by (induction ts arbitrary: st) (simp_all add: attached_sync_tag)

lemma ref_neq_same [simp]: "ref_neq r x x = False"
  by (cases x) simp_all








lemma keys_attr_remove: "fst ` set (attr_remove k al) = fst ` set al - {k}"
  by (auto simp: attr_remove_def)

lemma key_kept_sync_attrs:
  "m \<in> fst ` set al \<Longrightarrow> (m, JUndefined) \<notin> set a \<Longrightarrow> m \<in> fst ` set (sync_attrs a al)"
proof (induction a arbitrary: al)
  case Nil
  then show ?case by (simp add: sync_attrs_def)
next
  case (Cons kv a)
  obtain k v where kv: "kv = (k, v)" by (cases kv)
  let ?al = "if v = JUndefined then attr_remove k al else attr_set k (js_string v) al"
  have "m \<in> fst ` set ?al"
    using Cons.prems by (auto simp: kv keys_attr_remove keys_attr_set)
  moreover have "(m, JUndefined) \<notin> set a" using Cons.prems by simp
  ultimately have "m \<in> fst ` set (sync_attrs a ?al)" by (rule Cons.IH)
  then show ?case by (simp add: kv sync_attrs_def)
qed

lemma querySelector_only_match:
  assumes "only_match d t n" shows "querySelector d t = Some n"
proof (cases "querySelector d t")
  case None
  then have "\<not> (\<exists>x. x \<in> set (head d) \<and> matches d t x)"
    by (simp add: querySelector_def find_None_iff)
  with assms show ?thesis by (auto simp: only_match_def)
next
  case (Some j)
  then have "j \<in> set (head d) \<and> matches d t j"
    by (auto simp: querySelector_def find_Some_iff)
  with assms have "j = n" by (auto simp: only_match_def)
  with Some show ?thesis by simp
qed

lemma only_match_after_found:
  assumes om: "only_match d t n" and keep: "(''data-headmaster'', JUndefined) \<notin> set a"
  shows "fst (createOrUpdateElement t a None d) = n"
    and "only_match (fst (add_element t a (d, els))) t n"
proof -
  have q: "querySelector d t = Some n" using om by (rule querySelector_only_match)
  show f: "fst (createOrUpdateElement t a None d) = n" using q by (rule coue_found(1))
  let ?d' = "fst (add_element t a (d, els))"
  have v: "n < length (nodes d)" using q by (rule querySelector_Some_valid)
  have nd: "nodes ?d' = (nodes d)[n := (nodes d ! n)\<lparr>el_attrs :=
             sync_attrs a (attr_set ''data-headmaster'' '''' (el_attrs (nodes d ! n)))\<rparr>]"
    by (simp add: nodes_add_element coue_found(2) [OF q])
  have hd: "head ?d' = filter (\<lambda>j. j \<noteq> n) (head d) @ [n]"
    by (simp add: head_add_element f)
  have mk: "''data-headmaster'' \<in> fst ` set
              (sync_attrs a (attr_set ''data-headmaster'' '''' (el_attrs (nodes d ! n))))"
    using keep by (intro key_kept_sync_attrs) (simp_all add: keys_attr_set)
  have tg: "el_tag (nodes d ! n) = t" using om by (simp add: only_match_def matches_def)
  have mn: "matches ?d' t n"
    using v mk tg by (simp add: matches_def nd hasAttribute_def)
  have other: "matches ?d' t j = matches d t j" if "j \<noteq> n" for j
    using that by (simp add: matches_def nd)
  show "only_match ?d' t n"
    unfolding only_match_def
  proof (intro conjI ballI impI)
    show "n \<in> set (head ?d')" by (simp add: hd)
    show "matches ?d' t n" by (rule mn)
  next
    fix j assume j: "j \<in> set (head ?d')" and m: "matches ?d' t j"
    show "j = n"
    proof (rule ccontr)
      assume ne: "j \<noteq> n"
      then have "j \<in> set (head d)" using j by (simp add: hd)
      moreover have "matches d t j" using m other [OF ne] by simp
      ultimately show False using om ne by (auto simp: only_match_def)
    qed
  qed
qed

lemma only_match_after_created:
  assumes q: "querySelector d t = None" and keep: "(''data-headmaster'', JUndefined) \<notin> set a"
  shows "fst (createOrUpdateElement t a None d) = length (nodes d)"
    and "only_match (fst (add_element t a (d, els))) t (length (nodes d))"
proof -
  let ?n = "length (nodes d)"
  show f: "fst (createOrUpdateElement t a None d) = ?n" using q by (rule coue_created(1))
  let ?d' = "fst (add_element t a (d, els))"
  have nd: "nodes ?d' = nodes d @ [\<lparr>el_tag = t,
              el_attrs = sync_attrs a [(''data-headmaster'', '''')], el_inner = []\<rparr>]"
    by (simp add: nodes_add_element coue_created(2) [OF q])
  have hd: "head ?d' = filter (\<lambda>j. j \<noteq> ?n) (head d) @ [?n]"
    by (simp add: head_add_element f)
  have mk: "''data-headmaster'' \<in> fst ` set (sync_attrs a [(''data-headmaster'', '''')])"
    using keep by (intro key_kept_sync_attrs) simp_all
  have mn: "matches ?d' t ?n"
    using mk by (simp add: matches_def nd hasAttribute_def)
  have none: "\<not> matches d t j" if "j \<in> set (head d)" for j
    using q that by (auto simp: querySelector_def find_None_iff)
  have other: "matches ?d' t j \<Longrightarrow> matches d t j" if "j \<noteq> ?n" for j
    using that by (auto simp: matches_def nd nth_append)
  show "only_match ?d' t ?n"
    unfolding only_match_def
  proof (intro conjI ballI impI)
    show "?n \<in> set (head ?d')" by (simp add: hd)
    show "matches ?d' t ?n" by (rule mn)
  next
    fix j assume j: "j \<in> set (head ?d')" and m: "matches ?d' t j"
    show "j = ?n"
    proof (rule ccontr)
      assume ne: "j \<noteq> ?n"
      then have "j \<in> set (head d)" using j by (simp add: hd)
      moreover have "matches d t j" using m other [OF ne] by simp
      ultimately show False using none by blast
    qed
  qed
qed

lemma collide_only_match:
  assumes "only_match d t n" and "\<forall>a\<in>set xs. (''data-headmaster'', JUndefined) \<notin> set a"
  shows "snd (fold (add_element t) xs (d, els)) = els @ replicate (length xs) n"
  using assms
proof (induction xs arbitrary: d els)
  case Nil
  show ?case by simp
next
  case (Cons a xs)
  have keep: "(''data-headmaster'', JUndefined) \<notin> set a" using Cons.prems(2) by simp
  obtain d' where d': "add_element t a (d, els) = (d', els @ [n])"
    using only_match_after_found(1) [OF Cons.prems(1) keep]
    by (cases "add_element t a (d, els)") (metis snd_add_element fst_conv snd_conv)
  have om: "only_match d' t n"
    using only_match_after_found(2) [OF Cons.prems(1) keep, of els] by (simp add: d')
  have "snd (fold (add_element t) xs (d', els @ [n])) = (els @ [n]) @ replicate (length xs) n"
    using om Cons.prems(2) by (intro Cons.IH) simp_all
  then show ?case by (simp add: d' replicate_app_Cons_same)
qed

lemma collide_created:
  assumes q: "querySelector d t = None"
    and keep: "\<forall>a\<in>set xs. (''data-headmaster'', JUndefined) \<notin> set a"
  shows "snd (fold (add_element t) xs (d, els)) = els @ replicate (length xs) (length (nodes d))"
proof (cases xs)
  case Nil
  then show ?thesis by simp
next
  case (Cons a ys)
  have k: "(''data-headmaster'', JUndefined) \<notin> set a" using keep Cons by simp
  obtain d' where d': "add_element t a (d, els) = (d', els @ [length (nodes d)])"
    using only_match_after_created(1) [OF q k]
    by (cases "add_element t a (d, els)") (metis snd_add_element fst_conv snd_conv)
  have om: "only_match d' t (length (nodes d))"
    using only_match_after_created(2) [OF q k, of els] by (simp add: d')
  have "snd (fold (add_element t) ys (d', els @ [length (nodes d)]))
          = (els @ [length (nodes d)]) @ replicate (length ys) (length (nodes d))"
    using om keep Cons by (intro collide_only_match) simp_all
  then show ?thesis by (simp add: Cons d' replicate_app_Cons_same)
qed





lemmas eval_defs = example_A_def example_B_def example_dom_def empty_props_def empty_dom_def
  useHeadmaster_browser_def useHeadmaster_cleanup_def sync_tag_def add_element_def
  createOrUpdateElement_def querySelector_def matches_def hasAttribute_def createElement_def
  setAttribute_def removeAttribute_def update_node_def appendChild_def removeChild_def
  parentNode_def set_title_def setRootAttribute_def setBodyAttribute_def attr_remove_def
  VALID_TAG_NAMES_def tag_prop_def Let_def

section \<open>Serializer and applier on attribute values\<close>



section \<open>The claims on browser mode\<close>



text \<open>
  C5. \<^verbatim>\<open>createOrUpdateElement\<close> returns the first child of the head that has the tag name
  and the marker attribute when there is one, and creates no element then; it creates an
  element only when there is none. The search is made anew for every entry: in one round
  of the tag loop over a sequence, when the head holds no marked element of the tag name,
  or exactly one, every entry of the sequence resolves to one and the same element
  (provided no entry removes the marker by giving it the value \<^verbatim>\<open>undefined\<close>).
\<close>

theorem applier_reuses_first_marked_element:
  "(querySelector d t = Some i \<longrightarrow>
      (\<exists>n<length (head d). head d ! n = i \<and> (\<forall>m<n. \<not> matches d t (head d ! m)))
      \<and> matches d t i
      \<and> fst (createOrUpdateElement t a None d) = i
      \<and> length (nodes (snd (createOrUpdateElement t a None d))) = length (nodes d))
   \<and> (querySelector d t = None \<longrightarrow>
      (\<forall>j\<in>set (head d). \<not> matches d t j)
      \<and> fst (createOrUpdateElement t a None d) = length (nodes d)
      \<and> length (nodes (snd (createOrUpdateElement t a None d))) = Suc (length (nodes d)))
   \<and> (tag_prop t new = Some (TagArray r xs)
      \<and> ref_neq ref_of (tag_prop t new) (tag_prop t prev)
      \<and> (\<forall>x\<in>set xs. (''data-headmaster'', JUndefined) \<notin> set x)
      \<and> querySelector d t = None \<longrightarrow>
      snd (sync_tag prev new t (d, els)) = els @ replicate (length xs) (length (nodes d)))
   \<and> (tag_prop t new = Some (TagArray r xs)
      \<and> ref_neq ref_of (tag_prop t new) (tag_prop t prev)
      \<and> (\<forall>x\<in>set xs. (''data-headmaster'', JUndefined) \<notin> set x)
      \<and> querySelector d t = Some i \<and> (\<forall>j\<in>set (head d). matches d t j \<longrightarrow> j = i) \<longrightarrow>
      snd (sync_tag prev new t (d, els)) = els @ replicate (length xs) i)"
proof (intro conjI impI)
  assume q: "querySelector d t = Some i"
  then show "\<exists>n<length (head d). head d ! n = i \<and> (\<forall>m<n. \<not> matches d t (head d ! m))"
    by (auto simp: querySelector_def find_Some_iff)
  show "matches d t i" using q by (auto simp: querySelector_def find_Some_iff)
  show "fst (createOrUpdateElement t a None d) = i" using q by (rule coue_found(1))
  show "length (nodes (snd (createOrUpdateElement t a None d))) = length (nodes d)"
    by (simp add: coue_found(2) [OF q])
next
  assume q: "querySelector d t = None"
  then show "\<forall>j\<in>set (head d). \<not> matches d t j"
    by (auto simp: querySelector_def find_None_iff)
  show "fst (createOrUpdateElement t a None d) = length (nodes d)"
    using q by (rule coue_created(1))
  show "length (nodes (snd (createOrUpdateElement t a None d))) = Suc (length (nodes d))"
    by (simp add: coue_created(2) [OF q])
next
  assume h: "tag_prop t new = Some (TagArray r xs)
      \<and> ref_neq ref_of (tag_prop t new) (tag_prop t prev)
      \<and> (\<forall>x\<in>set xs. (''data-headmaster'', JUndefined) \<notin> set x)
      \<and> querySelector d t = None"
  then have "snd (fold (add_element t) xs (d, els))
               = els @ replicate (length xs) (length (nodes d))"
    by (intro collide_created) simp_all
  with h show "snd (sync_tag prev new t (d, els))
                 = els @ replicate (length xs) (length (nodes d))"
    by (auto simp: sync_tag_def Let_def)
next
  assume h: "tag_prop t new = Some (TagArray r xs)
      \<and> ref_neq ref_of (tag_prop t new) (tag_prop t prev)
      \<and> (\<forall>x\<in>set xs. (''data-headmaster'', JUndefined) \<notin> set x)
      \<and> querySelector d t = Some i \<and> (\<forall>j\<in>set (head d). matches d t j \<longrightarrow> j = i)"
  then have "i \<in> set (head d) \<and> matches d t i"
    by (auto simp: querySelector_def find_Some_iff)
  with h have "only_match d t i" by (simp add: only_match_def)
  with h have "snd (fold (add_element t) xs (d, els)) = els @ replicate (length xs) i"
    by (intro collide_only_match) simp_all
  with h show "snd (sync_tag prev new t (d, els)) = els @ replicate (length xs) i"
    by (auto simp: sync_tag_def Let_def)
qed

theorem applier_reuses_first_marked_element_witness:
  "querySelector example_dom ''meta'' = Some 1
   \<and> fst (createOrUpdateElement ''meta'' [(''name'', JString ''d'')] None example_dom) = 1
   \<and> length (nodes (snd (createOrUpdateElement ''meta'' [(''name'', JString ''d'')] None
        example_dom))) = 3
   \<and> querySelector empty_dom ''meta'' = None
   \<and> fst (createOrUpdateElement ''meta'' [(''name'', JString ''d'')] None empty_dom) = 0
   \<and> snd (sync_tag empty_props example_A ''meta'' (empty_dom, [])) = [0, 0]
   \<and> querySelector (example_dom\<lparr>head := [0, 2]\<rparr>) ''meta'' = Some 2
   \<and> snd (sync_tag empty_props example_A ''meta'' (example_dom\<lparr>head := [0, 2]\<rparr>, []))
       = [2, 2]"
  using applier_reuses_first_marked_element
    [where d = example_dom and t = "''meta''" and i = 1 and a = "[(''name'', JString ''d'')]"
       and new = empty_props and prev = empty_props and xs = "[]" and r = 0 and els = "[]"]
    applier_reuses_first_marked_element
    [where d = empty_dom and t = "''meta''" and i = 0 and a = "[(''name'', JString ''d'')]"
       and new = example_A and prev = empty_props and r = 1 and els = "[]"
       and xs = "[[(''name'', JString ''d'')], [(''name'', JString ''e'')]]"]
    applier_reuses_first_marked_element
    [where d = "example_dom\<lparr>head := [0, 2]\<rparr>" and t = "''meta''" and i = 2
       and a = "[(''name'', JString ''d'')]"
       and new = example_A and prev = empty_props and r = 1 and els = "[]"
       and xs = "[[(''name'', JString ''d'')], [(''name'', JString ''e'')]]"]
  by (simp add: eval_defs)

text \<open>
  C6. Every element the browser branch records is a child of the head when the branch
  ends. The teardown, run on that document, leaves in the head exactly the children that
  were not recorded, in their order: every recorded element is removed and no other is.
  The same holds for the teardown on any array and any document.
\<close>

theorem teardown_removes_recorded_only:
  "set (snd (useHeadmaster_browser prev new d))
     \<subseteq> set (head (fst (useHeadmaster_browser prev new d)))
   \<and> head (useHeadmaster_cleanup (snd (useHeadmaster_browser prev new d))
            (fst (useHeadmaster_browser prev new d)))
     = filter (\<lambda>i. i \<notin> set (snd (useHeadmaster_browser prev new d)))
         (head (fst (useHeadmaster_browser prev new d)))
   \<and> head (useHeadmaster_cleanup els d) = filter (\<lambda>i. i \<notin> set els) (head d)"
  by (simp add: head_cleanup browser_phases attached_fold_sync_tag)

theorem teardown_removes_recorded_only_witness:
  "snd (useHeadmaster_browser empty_props example_A example_dom) = [1, 2]
   \<and> head (fst (useHeadmaster_browser empty_props example_A example_dom)) = [0, 1, 2]
   \<and> head (useHeadmaster_cleanup (snd (useHeadmaster_browser empty_props example_A example_dom))
            (fst (useHeadmaster_browser empty_props example_A example_dom))) = [0]"
  using teardown_removes_recorded_only
    [where prev = empty_props and new = example_A and d = example_dom
       and els = "[]"]
  by (simp add: eval_defs)





text \<open>
  C10. The teardown leaves the document title, the attributes of the root element and the
  attributes of the body element as they are, and changes no element: it only detaches
  elements from the head.
\<close>

theorem teardown_reverts_nothing_else:
  "doc_title (useHeadmaster_cleanup els d) = doc_title d
   \<and> root_attrs (useHeadmaster_cleanup els d) = root_attrs d
   \<and> body_attrs (useHeadmaster_cleanup els d) = body_attrs d
   \<and> nodes (useHeadmaster_cleanup els d) = nodes d"
  using outer_cleanup [of els d] by (simp add: outer_def nodes_cleanup)


end
